theory Spec2Isabelle
  imports Complex_Main "HOL-Library.Sublist"
begin

section \<open>The dd.weather.gc.ca backend of wego\<close>

text \<open>
  The development embeds the four functions of \<^verbatim>\<open>backends/dd.weather.gc.ca.go\<close> that
  carry behaviour: \<^verbatim>\<open>fetchLocation\<close>, \<^verbatim>\<open>fetchNearestStation\<close>, \<^verbatim>\<open>fetchSiteData\<close> and
  \<^verbatim>\<open>Fetch\<close>. A Go \<^verbatim>\<open>string\<close> is a sequence of bytes and so is an Isabelle \<^typ>\<open>string\<close>.
  What the program obtains from outside itself (the network, and the packages
  \<^verbatim>\<open>strconv\<close>, \<^verbatim>\<open>encoding/csv\<close>, \<^verbatim>\<open>encoding/xml\<close> and \<^verbatim>\<open>math\<close>) is collected in a record
  of functions, the platform, over which every definition is parametric; the type
  variable \<open>'f\<close> stands for \<^verbatim>\<open>float64\<close> and \<open>'d\<close> for the decoded \<^verbatim>\<open>siteData\<close>.
\<close>

subsection \<open>Errors, results and effects\<close>

text \<open>
  \<^verbatim>\<open>io.EOF\<close> and \<^verbatim>\<open>bufio.ErrBufferFull\<close> are sentinel values the code or the library compares
  against; every other library error is carried as its message. A Go \<^verbatim>\<open>error\<close> that may
  be \<^verbatim>\<open>nil\<close> is an \<open>option\<close>.
\<close>

datatype io_error = EOF | ErrBufferFull | OtherError string

fun io_Error :: "io_error \<Rightarrow> string" where
  "io_Error EOF = ''EOF''"
| "io_Error ErrBufferFull = ''bufio: buffer full''"
| "io_Error (OtherError msg) = msg"

text \<open>
  One constructor for each place where the file builds or passes on an error. The
  values themselves are \<^verbatim>\<open>fmt.Errorf\<close> messages; \<open>Error\<close> renders the message each one
  carries.
\<close>

datatype error =
    GetError string string
  | ReadBodyError string string
  | HeaderError io_error
  | CsvError string io_error
  | UnmarshalError string string string
  | LatitudeError string
  | LongitudeError string
  | LocationFormatError

fun Error :: "error \<Rightarrow> string" where
  "Error (GetError URI err) = ''unable to get ('' @ URI @ '') '' @ err"
| "Error (ReadBodyError URI err) = ''unable to read response body ('' @ URI @ ''): '' @ err"
| "Error (HeaderError err) = io_Error err"
| "Error (CsvError URI err) = ''unable to process the csv at '' @ URI @ '': '' @ io_Error err"
| "Error (UnmarshalError URI err body) =
     ''unable to unmarshal response ('' @ URI @ ''): '' @ err @ [CHR 0x0A]
       @ ''The json body is: '' @ body"
| "Error (LatitudeError err) = ''latitude error: '' @ err"
| "Error (LongitudeError err) = ''longitude error: '' @ err"
| "Error LocationFormatError = ''expected location to be only latitude,longitude''"

text \<open>
  A call returns its values with a \<^verbatim>\<open>nil\<close> error, returns an error, or panics at run time.
\<close>

datatype panic = IndexOutOfRange nat nat | SliceOutOfRange

datatype 'a result = Return 'a | Fail error | Panic panic

text \<open>
  \<^verbatim>\<open>Fetch\<close> has no error result: it returns, leaves through \<^verbatim>\<open>log.Fatal\<close> (which prints and
  calls \<^verbatim>\<open>os.Exit(1)\<close>), or panics.
\<close>

datatype 'a outcome = Returns 'a | Exits error | Panics panic

text \<open>
  The effects are the HTTP requests sent and the lines given to the logger, in order.
\<close>

datatype 'd log_line = LogText string | LogData 'd

record 'd world =
  requested :: "string list"
  logged :: "'d log_line list"

definition log_Print :: "'d log_line \<Rightarrow> 'd world \<Rightarrow> 'd world" where
  "log_Print l w = w\<lparr>logged := logged w @ [l]\<rparr>"

subsection \<open>The platform\<close>

text \<open>
  \<^verbatim>\<open>http.Get\<close> followed by \<^verbatim>\<open>ioutil.ReadAll\<close> either fails in transport, fails while the body
  is read, or yields the body. A status code other than 200 is no error for \<^verbatim>\<open>http.Get\<close>.
\<close>

datatype http_reply = TransportError string | BodyReadError string | Body string

text \<open>
  A \<^verbatim>\<open>csv.Reader\<close> over a byte slice is represented by the results its successive
  \<^verbatim>\<open>Read\<close> calls still have to deliver, each a record with an error that may be \<^verbatim>\<open>nil\<close>;
  once they are used up every further call reports \<^verbatim>\<open>io.EOF\<close>.
\<close>

type_synonym csv_Reader = "(string list \<times> io_error option) list"

definition csv_Read :: "csv_Reader \<Rightarrow> (string list \<times> io_error option) \<times> csv_Reader" where
  "csv_Read r = (case r of [] \<Rightarrow> (([], Some EOF), []) | x # xs \<Rightarrow> (x, xs))"

record ('f, 'd) platform =
  ParseFloat :: "string \<Rightarrow> string + 'f"
  MaxFloat64 :: "'f"
  http_Get :: "string \<Rightarrow> http_reply"
  csv_NewReader :: "string \<Rightarrow> csv_Reader"
  xml_Unmarshal :: "string \<Rightarrow> string + 'd"

definition Get :: "('f, 'd) platform \<Rightarrow> string \<Rightarrow> 'd world \<Rightarrow> http_reply \<times> 'd world" where
  "Get P URI w = (http_Get P URI, w\<lparr>requested := requested w @ [URI]\<rparr>)"

subsection \<open>Indexing, slicing and splitting\<close>

definition index :: "'a list \<Rightarrow> nat \<Rightarrow> 'a option" where
  "index xs i = (if i < length xs then Some (xs ! i) else None)"

text \<open>\<^verbatim>\<open>strings.Split(s, sep)\<close> for a separator of one byte.\<close>

fun Split_from :: "char \<Rightarrow> string \<Rightarrow> string \<Rightarrow> string list" where
  "Split_from sep cur [] = [cur]"
| "Split_from sep cur (x # xs) =
     (if x = sep then cur # Split_from sep [] xs else Split_from sep (cur @ [x]) xs)"

definition Split :: "string \<Rightarrow> char \<Rightarrow> string list" where
  "Split s sep = Split_from sep [] s"

subsection \<open>fetchLocation\<close>

text \<open>
  The pattern is \<^verbatim>\<open>^-?[0-9]*(\.[0-9]+)?,-?[0-9]*(\.[0-9]+)?$\<close>. The three classes it uses (digits,
  the point, the comma) and the minus sign are pairwise disjoint, so a match is found
  without backtracking: \<open>match_number\<close> consumes \<^verbatim>\<open>-?[0-9]*(\.[0-9]+)?\<close> greedily and yields the
  rest, and fails when a point is not followed by a digit (nothing else the pattern
  allows after a number starts with a point).
\<close>

definition digit :: "char \<Rightarrow> bool" where
  "digit c \<longleftrightarrow> (48::nat) \<le> of_char c \<and> (of_char c :: nat) \<le> 57"

definition skip_minus :: "string \<Rightarrow> string" where
  "skip_minus s = (case s of [] \<Rightarrow> s | c # t \<Rightarrow> if c = CHR ''-'' then t else s)"

definition match_number :: "string \<Rightarrow> string option" where
  "match_number s =
     (let r = dropWhile digit (skip_minus s)
      in case r of
           [] \<Rightarrow> Some r
         | c # t \<Rightarrow>
             if c = CHR ''.'' then
               (case t of [] \<Rightarrow> None
                | d # u \<Rightarrow> if digit d then Some (dropWhile digit u) else None)
             else Some r)"

definition MatchString :: "string \<Rightarrow> bool" where
  "MatchString location =
     (case match_number location of
        None \<Rightarrow> False
      | Some r \<Rightarrow>
          (case r of [] \<Rightarrow> False
           | c # t \<Rightarrow> c = CHR '','' \<and> match_number t = Some []))"

text \<open>
  The text of one number of the pattern, \<^verbatim>\<open>-?[0-9]*(\.[0-9]+)?\<close>, taken alone: an optional
  minus sign, digits (none is allowed), and an optional point followed by at least one
  digit.
\<close>

definition number_text :: "string \<Rightarrow> bool" where
  "number_text a =
     (case dropWhile digit (skip_minus a) of
        [] \<Rightarrow> True
      | c # t \<Rightarrow> c = CHR ''.'' \<and> t \<noteq> [] \<and> list_all digit t)"

definition fetchLocation :: "(string \<Rightarrow> string + 'f) \<Rightarrow> string \<Rightarrow> ('f \<times> 'f) result" where
  "fetchLocation parseFloat location =
     (if MatchString location then
        (let s = Split location (CHR '','') in
         case index s 0 of
           None \<Rightarrow> Panic (IndexOutOfRange 0 (length s))
         | Some s0 \<Rightarrow>
             (case parseFloat s0 of
                Inl err \<Rightarrow> Fail (LatitudeError err)
              | Inr lat \<Rightarrow>
                  (case index s 1 of
                     None \<Rightarrow> Panic (IndexOutOfRange 1 (length s))
                   | Some s1 \<Rightarrow>
                       (case parseFloat s1 of
                          Inl err \<Rightarrow> Fail (LongitudeError err)
                        | Inr lon \<Rightarrow> Return (lat, lon)))))
      else Fail LocationFormatError)"

subsection \<open>fetchNearestStation\<close>

definition stationListURI :: string where
  "stationListURI = ''https://dd.meteo.gc.ca/citypage_weather/docs/site_list_towns_en.csv''"

text \<open>
  \<^verbatim>\<open>bufio.NewReader(bodyReader).ReadSlice('\n')\<close> on a fresh reader with the default buffer
  of 4096 bytes over a byte slice: the line up to and including the first newline of the
  buffer; \<^verbatim>\<open>ErrBufferFull\<close> when the buffer fills without one; \<^verbatim>\<open>io.EOF\<close> when the input ends
  first.
\<close>

definition newline :: char where
  "newline = CHR 0x0A"

definition ReadSlice :: "string \<Rightarrow> string \<times> io_error option" where
  "ReadSlice body =
     (let buf = take 4096 body in
      if newline \<in> set buf then (takeWhile (\<lambda>c. c \<noteq> newline) buf @ [newline], None)
      else if 4096 \<le> length body then (buf, Some ErrBufferFull)
      else (buf, Some EOF))"

text \<open>\<^verbatim>\<open>x[:len(x)-1]\<close> panics on the empty string.\<close>

definition drop_last :: "string \<Rightarrow> string option" where
  "drop_last x = (if x = [] then None else Some (butlast x))"

text \<open>
  The \<^verbatim>\<open>for\<close> loop of \<^verbatim>\<open>fetchNearestStation\<close>, one call for each iteration. The arguments
  after the reader are the loop's variables \<^verbatim>\<open>minDistance\<close>, \<^verbatim>\<open>nearestStationCode\<close> and
  \<^verbatim>\<open>province\<close>. The first test is the source's \<^verbatim>\<open>if err != io.EOF { break }\<close>; the case distinction on
  the error is its \<^verbatim>\<open>else if err != nil\<close>, with the loop body where the error is \<^verbatim>\<open>nil\<close>;
  \<^verbatim>\<open>continue\<close> and the end of the body are the recursive calls. The two reads \<open>record ! 0\<close>
  and \<open>record ! 2\<close> come after column 4 has been read and are in range.
\<close>

fun scanStations ::
  "('f::{minus,plus,power,ord}, 'd) platform \<Rightarrow> 'f \<Rightarrow> 'f \<Rightarrow> csv_Reader \<Rightarrow> 'f \<Rightarrow> string \<Rightarrow> string
     \<Rightarrow> 'd world \<Rightarrow> (string \<times> string) result \<times> 'd world" where
  "scanStations P lat lon csv minDistance nearestStationCode province w =
     (case csv_Read csv of
        ((record, err), csv') \<Rightarrow>
          if err \<noteq> Some EOF then (Return (nearestStationCode, province), w)
          else
            (case err of
               Some e \<Rightarrow> (Fail (CsvError stationListURI e), w)
             | None \<Rightarrow>
            (case index record 3 of
               None \<Rightarrow> (Panic (IndexOutOfRange 3 (length record)), w)
             | Some r3 \<Rightarrow>
            (case drop_last r3 of
               None \<Rightarrow> (Panic SliceOutOfRange, w)
             | Some t3 \<Rightarrow>
            (case ParseFloat P t3 of
               Inl err \<Rightarrow>
                 scanStations P lat lon csv' minDistance nearestStationCode province
                   (log_Print (LogText err) w)
             | Inr stationLat \<Rightarrow>
            (case index record 4 of
               None \<Rightarrow> (Panic (IndexOutOfRange 4 (length record)), w)
             | Some r4 \<Rightarrow>
            (case drop_last r4 of
               None \<Rightarrow> (Panic SliceOutOfRange, w)
             | Some t4 \<Rightarrow>
            (case ParseFloat P t4 of
               Inl err \<Rightarrow>
                 scanStations P lat lon csv' minDistance nearestStationCode province
                   (log_Print (LogText err) w)
             | Inr stationLon \<Rightarrow>
                 (let distance = (lat - stationLat) ^ 2 + (lon - stationLon) ^ 2 in
                  if distance < minDistance then
                    scanStations P lat lon csv' distance (record ! 0) (record ! 2) w
                  else
                    scanStations P lat lon csv' minDistance nearestStationCode province w)))))))))"

definition fetchNearestStation ::
  "('f::{minus,plus,power,ord}, 'd) platform \<Rightarrow> 'f \<Rightarrow> 'f \<Rightarrow> 'd world
     \<Rightarrow> (string \<times> string) result \<times> 'd world" where
  "fetchNearestStation P lat lon w =
     (case Get P stationListURI w of
        (TransportError err, w') \<Rightarrow> (Fail (GetError stationListURI err), w')
      | (BodyReadError err, w') \<Rightarrow> (Fail (ReadBodyError stationListURI err), w')
      | (Body body, w') \<Rightarrow>
          (case ReadSlice body of
             (firstLine, Some err) \<Rightarrow> (Fail (HeaderError err), w')
           | (firstLine, None) \<Rightarrow>
               scanStations P lat lon (csv_NewReader P (drop (length firstLine) body))
                 (MaxFloat64 P) [] [] w'))"

subsection \<open>fetchSiteData\<close>

text \<open>
  The verb \<^verbatim>\<open>%c\<close> writes the UTF-8 encoding of its rune, and of U+FFFD for a value that is
  no code point. A rune is an \<^verbatim>\<open>int32\<close>, here an \<^typ>\<open>int\<close>.
\<close>

definition utf8_encode :: "int \<Rightarrow> string" where
  "utf8_encode r =
     (if r < 0 \<or> 0x10FFFF < r \<or> (0xD800 \<le> r \<and> r \<le> 0xDFFF) then
        [CHR 0xEF, CHR 0xBF, CHR 0xBD]
      else if r \<le> 0x7F then [char_of r]
      else if r \<le> 0x7FF then [char_of (0xC0 + r div 64), char_of (0x80 + r mod 64)]
      else if r \<le> 0xFFFF then
        [char_of (0xE0 + r div 4096), char_of (0x80 + r div 64 mod 64),
         char_of (0x80 + r mod 64)]
      else
        [char_of (0xF0 + r div 262144), char_of (0x80 + r div 4096 mod 64),
         char_of (0x80 + r div 64 mod 64), char_of (0x80 + r mod 64)])"

definition siteDataURI :: "string \<Rightarrow> string \<Rightarrow> int \<Rightarrow> string" where
  "siteDataURI stationCode province lang =
     ''https://dd.weather.gc.ca/citypage_weather/xml/'' @ stationCode @ ''/'' @ province
       @ ''_'' @ utf8_encode lang @ ''.xml''"

definition fetchSiteData ::
  "('f, 'd) platform \<Rightarrow> string \<Rightarrow> string \<Rightarrow> int \<Rightarrow> 'd world \<Rightarrow> 'd result \<times> 'd world" where
  "fetchSiteData P stationCode province lang w =
     (let URI = siteDataURI stationCode province lang in
      case Get P URI w of
        (TransportError err, w') \<Rightarrow> (Fail (GetError URI err), w')
      | (BodyReadError err, w') \<Rightarrow> (Fail (ReadBodyError URI err), w')
      | (Body body, w') \<Rightarrow>
          (case xml_Unmarshal P body of
             Inl err \<Rightarrow> (Fail (UnmarshalError URI err body), w')
           | Inr data \<Rightarrow> (Return data, w')))"

subsection \<open>Fetch\<close>

record mscConfig =
  lang :: string

text \<open>
  \<^verbatim>\<open>log.Fatal(err)\<close> prints the error and ends the process. The type \<^verbatim>\<open>iface.Data\<close> is declared
  outside this file: it is the type variable \<open>'r\<close>, and \<open>zero\<close> is the value a \<^verbatim>\<open>var\<close>
  declaration gives it. The expression \<^verbatim>\<open>c.lang[0]\<close> is evaluated when the third stage is
  reached, and panics on the empty string; \<^verbatim>\<open>rune(b)\<close> of a byte is its number.
\<close>

definition log_Fatal :: "error \<Rightarrow> 'd world \<Rightarrow> 'r outcome \<times> 'd world" where
  "log_Fatal err w = (Exits err, log_Print (LogText (Error err)) w)"

definition Fetch ::
  "('f::{minus,plus,power,ord}, 'd) platform \<Rightarrow> 'r \<Rightarrow> mscConfig \<Rightarrow> string \<Rightarrow> int \<Rightarrow> 'd world
     \<Rightarrow> 'r outcome \<times> 'd world" where
  "Fetch P zero c location numdays w =
     (let ret = zero in
      case fetchLocation (ParseFloat P) location of
        Panic p \<Rightarrow> (Panics p, w)
      | Fail err \<Rightarrow> log_Fatal err w
      | Return (lat, lon) \<Rightarrow>
          (case fetchNearestStation P lat lon w of
             (Panic p, w1) \<Rightarrow> (Panics p, w1)
           | (Fail err, w1) \<Rightarrow> log_Fatal err w1
           | (Return (nearestStationCode, province), w1) \<Rightarrow>
               (case index (lang c) 0 of
                  None \<Rightarrow> (Panics (IndexOutOfRange 0 (length (lang c))), w1)
                | Some b \<Rightarrow>
                    (case fetchSiteData P nearestStationCode province (of_char b) w1 of
                       (Panic p, w2) \<Rightarrow> (Panics p, w2)
                     | (Fail err, w2) \<Rightarrow> log_Fatal err w2
                     | (Return data, w2) \<Rightarrow> (Returns ret, log_Print (LogData data) w2)))))"

subsection \<open>A platform for closed examples\<close>

text \<open>
  The theorems below hold for every platform. Closed examples need a particular one.
  \<open>decimalFloat\<close> reads plain decimal text (a sign, digits, at most one point, at least one
  digit) as \<^verbatim>\<open>strconv.ParseFloat(s, 64)\<close> does, up to the rounding to the nearest
  \<^verbatim>\<open>float64\<close>, which is left out: the value is the real number the text denotes, and text
  denoting a number beyond the largest \<^verbatim>\<open>float64\<close> by half a unit in the last place or more
  is a range error. It reports a syntax error on all other text; the examples use it on
  the empty string and on the words \<^verbatim>\<open>north\<close> and \<^verbatim>\<open>west\<close>, which \<^verbatim>\<open>strconv\<close> rejects so too.
  \<open>plainCsv\<close> reads text without quotes, carriage returns or lines of differing field
  counts as \<^verbatim>\<open>encoding/csv\<close> does: one record for each non-empty line.
\<close>

definition digits_value :: "string \<Rightarrow> nat" where
  "digits_value ds = foldl (\<lambda>acc c. 10 * acc + (of_char c - 48)) 0 ds"

definition quoted :: "string \<Rightarrow> string" where
  "quoted s = [CHR 0x22] @ s @ [CHR 0x22]"

definition decimalFloat :: "string \<Rightarrow> string + real" where
  "decimalFloat s =
     (let neg = (case s of c # t \<Rightarrow> c = CHR ''-'' | [] \<Rightarrow> False);
          u = (case s of c # t \<Rightarrow> if c = CHR ''-'' \<or> c = CHR ''+'' then t else s | [] \<Rightarrow> s);
          ip = takeWhile digit u;
          r = dropWhile digit u;
          fp = (case r of c # t \<Rightarrow> t | [] \<Rightarrow> []);
          wellformed = ((case r of c # t \<Rightarrow> c = CHR ''.'' \<and> list_all digit t | [] \<Rightarrow> True)
                          \<and> (ip \<noteq> [] \<or> fp \<noteq> []));
          v = real (digits_value (ip @ fp)) / 10 ^ length fp
      in if \<not> wellformed then
           Inl (''strconv.ParseFloat: parsing '' @ quoted s @ '': invalid syntax'')
         else if 2 ^ 1024 - 2 ^ 970 \<le> v then
           Inl (''strconv.ParseFloat: parsing '' @ quoted s @ '': value out of range'')
         else Inr (if neg then - v else v))"

definition plainCsv :: "string \<Rightarrow> csv_Reader" where
  "plainCsv text =
     map (\<lambda>line. (Split line (CHR '',''), None)) (filter (\<lambda>line. line \<noteq> []) (Split text newline))"

definition fixture :: "http_reply \<Rightarrow> http_reply \<Rightarrow> string + 'd \<Rightarrow> (real, 'd) platform" where
  "fixture directory bulletin decoded =
     \<lparr>ParseFloat = decimalFloat,
      MaxFloat64 = 2 ^ 1024 - 2 ^ 971,
      http_Get = (\<lambda>URI. if URI = stationListURI then directory else bulletin),
      csv_NewReader = plainCsv,
      xml_Unmarshal = (\<lambda>body. decoded)\<rparr>"

definition idle :: "'d world" where
  "idle = \<lparr>requested = [], logged = []\<rparr>"

subsection \<open>The specification's wording, for comparison\<close>

text \<open>
  The specification describes the accepted location as two signed decimal numbers, each
  an optional minus, digits and an optional fractional part. \<open>spec_signed_decimal\<close>
  reads that as a number is written: at least one digit before the optional point.
\<close>

definition spec_signed_decimal :: "string \<Rightarrow> bool" where
  "spec_signed_decimal a =
     (takeWhile digit (skip_minus a) \<noteq> []
      \<and> (case dropWhile digit (skip_minus a) of
            [] \<Rightarrow> True
          | c # t \<Rightarrow> c = CHR ''.'' \<and> t \<noteq> [] \<and> list_all digit t))"

definition spec_location :: "string \<Rightarrow> bool" where
  "spec_location s =
     (case Split s (CHR '','') of
        [a, b] \<Rightarrow> spec_signed_decimal a \<and> spec_signed_decimal b
      | _ \<Rightarrow> False)"

text \<open>
  The specification forms the bulletin address from the station code, the region and a
  language that is the first character of the configured string. A character of a Go
  string is a UTF-8 sequence: one byte below \<^verbatim>\<open>0x80\<close>, otherwise as many bytes as the lead
  byte announces.
\<close>

definition first_character :: "string \<Rightarrow> string" where
  "first_character s =
     (case s of
        [] \<Rightarrow> []
      | b # t \<Rightarrow>
          if (of_char b :: nat) < 0x80 then [b]
          else if 0xC0 \<le> (of_char b :: nat) \<and> (of_char b :: nat) < 0xE0 then take 2 s
          else if 0xE0 \<le> (of_char b :: nat) \<and> (of_char b :: nat) < 0xF0 then take 3 s
          else if 0xF0 \<le> (of_char b :: nat) \<and> (of_char b :: nat) < 0xF8 then take 4 s
          else [b])"

definition spec_siteDataURI :: "string \<Rightarrow> string \<Rightarrow> string \<Rightarrow> string" where
  "spec_siteDataURI stationCode region configured =
     ''https://dd.weather.gc.ca/citypage_weather/xml/'' @ stationCode @ ''/'' @ region
       @ ''_'' @ first_character configured @ ''.xml''"

text \<open>
  The rows of the station list that the loop body would pass over: those on which it
  reaches one of its two \<^verbatim>\<open>continue\<close> statements, because \<^verbatim>\<open>ParseFloat\<close> fails on column 3
  or on column 4 once the unit letter is cut off.
\<close>

definition malformed :: "('f, 'd) platform \<Rightarrow> string list \<Rightarrow> bool" where
  "malformed P record =
     (case index record 3 of
        None \<Rightarrow> False
      | Some r3 \<Rightarrow>
     (case drop_last r3 of
        None \<Rightarrow> False
      | Some t3 \<Rightarrow>
     (case ParseFloat P t3 of
        Inl err \<Rightarrow> True
      | Inr stationLat \<Rightarrow>
     (case index record 4 of
        None \<Rightarrow> False
      | Some r4 \<Rightarrow>
     (case drop_last r4 of
        None \<Rightarrow> False
      | Some t4 \<Rightarrow>
     (case ParseFloat P t4 of
        Inl err \<Rightarrow> True
      | Inr stationLon \<Rightarrow> False))))))"

text \<open>The header line of a station list, and the station rows of the examples.\<close>

definition header :: string where
  "header = ''Codes,English Names,Province Codes,Latitude,Longitude'' @ [newline]"

definition threeRows :: string where
  "threeRows =
     ''A,Alpha,ON,0N,0W'' @ [newline]
     @ ''B,Beta,QC,1N,1W'' @ [newline]
     @ ''C,Gamma,BC,-1N,-1W'' @ [newline]"

definition badThenGood :: string where
  "badThenGood =
     ''X,Xi,ON,northN,0W'' @ [newline]
     @ ''B,Beta,QC,1N,1W'' @ [newline]"

definition allBad :: string where
  "allBad =
     ''X,Xi,ON,northN,0W'' @ [newline]
     @ ''Y,Upsilon,QC,1N,westW'' @ [newline]"

text \<open>
  Two platforms for the examples of the whole pipeline. Both serve the station list of
  three rows. On \<open>served\<close> the bulletin decodes (to a value that stands for the decoded
  document); on \<open>truncated\<close> the bulletin is cut off and \<^verbatim>\<open>xml.Unmarshal\<close> reports it.
\<close>

definition served :: "(real, unit) platform" where
  "served = fixture (Body (header @ threeRows)) (Body ''<siteData></siteData>'') (Inr ())"

definition truncated :: "(real, unit) platform" where
  "truncated =
     fixture (Body (header @ threeRows)) (Body ''<siteData><lic'')
       (Inl ''XML syntax error on line 1: unexpected EOF'')"

section \<open>Properties\<close>

subsection \<open>The location pattern\<close>

lemma digit_simps [simp]: "\<not> digit (CHR '','')" "\<not> digit (CHR ''.'')" "\<not> digit (CHR ''-'')"
  by (simp_all add: digit_def)

lemma dropWhile_digits: "list_all digit ds \<Longrightarrow> \<not> digit c \<Longrightarrow> dropWhile digit (ds @ c # r) = c # r"
  by (induction ds) auto

lemma dropWhile_all: "list_all digit ds \<Longrightarrow> dropWhile digit (ds @ r) = dropWhile digit r"
  by (induction ds) auto

lemma list_all_takeWhile: "list_all P (takeWhile P xs)"
  by (induction xs) auto

lemma skip_minus_set: "set (skip_minus a) \<subseteq> set a" "set a \<subseteq> insert (CHR ''-'') (set (skip_minus a))"
  by (auto simp: skip_minus_def split: list.splits if_splits)

lemma number_text_no_comma: 
  assumes "number_text a" shows "CHR '','' \<notin> set a"
proof -
  define u where "u = skip_minus a"
  have u: "u = takeWhile digit u @ dropWhile digit u" by simp
  have "CHR '','' \<notin> set (takeWhile digit u)"
    using set_takeWhileD digit_simps(1) by metis
  moreover have "CHR '','' \<notin> set (dropWhile digit u)"
  proof (cases "dropWhile digit u")
    case Nil
    then show ?thesis by (simp del: dropWhile_eq_Nil_conv)
  next
    case (Cons c t)
    then have "c = CHR ''.''" "list_all digit t"
      using assms unfolding number_text_def u_def [symmetric] by simp_all
    then show ?thesis using Cons digit_simps(1) by (auto simp: list_all_iff)
  qed
  ultimately have "CHR '','' \<notin> set u" using u
    by (metis Un_iff set_append)
  then show ?thesis using skip_minus_set(2) [of a] unfolding u_def by auto
qed

lemma skip_minus_append:
  "r = [] \<or> hd r \<noteq> CHR ''-'' \<Longrightarrow> skip_minus (a @ r) = skip_minus a @ r"
  by (cases a; cases r) (auto simp: skip_minus_def)

lemma match_number_complete:
  assumes "number_text a" "r = [] \<or> hd r = CHR '',''"
  shows "match_number (a @ r) = Some r"
proof -
  define u where "u = skip_minus a"
  have s: "skip_minus (a @ r) = u @ r"
    unfolding u_def using assms(2) by (intro skip_minus_append) auto
  have r: "dropWhile digit r = r" using assms(2) by (cases r) auto
  have m: "(case r of [] \<Rightarrow> Some r | c # t \<Rightarrow> if c = CHR ''.'' then
               (case t of [] \<Rightarrow> None
                | d # u \<Rightarrow> if digit d then Some (dropWhile digit u) else None)
             else Some r) = Some r" using assms(2) by (cases r) auto
  show ?thesis
  proof (cases "dropWhile digit u")
    case Nil
    then have "list_all digit u" by (simp add: list_all_iff)
    then have "dropWhile digit (u @ r) = r" using r by (simp add: dropWhile_all)
    then show ?thesis using m by (simp add: match_number_def s)
  next
    case (Cons c t)
    then have c: "c = CHR ''.''" "t \<noteq> []" "list_all digit t"
      using assms(1) unfolding number_text_def u_def by auto
    have "u = takeWhile digit u @ c # t" using Cons by (metis takeWhile_dropWhile_id)
    then have "dropWhile digit (u @ r) = c # t @ r"
      using c(1) by (metis append_Cons append_assoc dropWhile_digits digit_simps(2) list_all_takeWhile)
    moreover obtain d t' where t: "t = d # t'" using c(2) by (cases t) auto
    ultimately show ?thesis using c r t by (simp add: match_number_def s dropWhile_all)
  qed
qed

lemma skip_minus_decomp: "\<exists>sign. a = sign @ skip_minus a \<and> (sign = [] \<and> (a = [] \<or> hd a \<noteq> CHR ''-'') \<or> sign = ''-'')"
  by (cases a) (auto simp: skip_minus_def)

lemma number_text_intro:
  assumes "sign = [] \<or> sign = ''-''" "list_all digit ds" "fr = [] \<or> (\<exists>fs. fr = CHR ''.'' # fs \<and> fs \<noteq> [] \<and> list_all digit fs)"
  shows "number_text (sign @ ds @ fr)"
proof -
  have "skip_minus (sign @ ds @ fr) = ds @ fr"
    using assms by (cases ds; cases fr) (auto simp: skip_minus_def)
  moreover have "dropWhile digit (ds @ fr) = fr"
    using assms(2,3) by (cases fr) (auto simp: dropWhile_all dropWhile_digits list_all_iff)
  ultimately show ?thesis using assms(3) by (auto simp: number_text_def split: list.splits)
qed

lemma match_number_sound:
  assumes "match_number s = Some r" shows "\<exists>a. s = a @ r \<and> number_text a"
proof -
  define u where "u = skip_minus s"
  obtain sign where sg: "s = sign @ u" "sign = [] \<or> sign = ''-''"
    using skip_minus_decomp [of s] unfolding u_def by auto
  define ds where "ds = takeWhile digit u"
  have ds: "list_all digit ds" by (simp add: ds_def list_all_takeWhile)
  have u: "u = ds @ dropWhile digit u" by (simp add: ds_def)
  show ?thesis
  proof (cases "dropWhile digit u")
    case Nil
    then have "r = []" using assms unfolding match_number_def u_def [symmetric] Let_def
      by (simp del: dropWhile_eq_Nil_conv)
    moreover have "number_text (sign @ ds @ [])" using sg(2) ds by (intro number_text_intro) auto
    ultimately show ?thesis using sg u Nil by auto
  next
    case (Cons c t)
    show ?thesis
    proof (cases "c = CHR ''.''")
      case False
      then have "r = c # t" using assms Cons by (simp add: match_number_def u_def)
      moreover have "number_text (sign @ ds @ [])" using sg(2) ds by (intro number_text_intro) auto
      ultimately show ?thesis using sg u Cons by (metis append_Nil2 append_assoc)
    next
      case True
      then obtain d t' where t: "t = d # t'" "digit d" "r = dropWhile digit t'"
        using assms Cons by (auto simp: match_number_def u_def split: list.splits if_splits)
      have "number_text (sign @ ds @ (CHR ''.'' # d # takeWhile digit t'))"
        using sg(2) ds t(2) by (intro number_text_intro) (auto simp: list_all_takeWhile)
      moreover have "s = (sign @ ds @ (CHR ''.'' # d # takeWhile digit t')) @ r"
        using sg(1) u Cons True t by (metis append_Cons append_assoc takeWhile_dropWhile_id)
      ultimately show ?thesis by blast
    qed
  qed
qed

lemma number_text_iff:
  "number_text a \<longleftrightarrow>
     (\<exists>sign ds fr. a = sign @ ds @ fr \<and> (sign = [] \<or> sign = ''-'') \<and> list_all digit ds
        \<and> (fr = [] \<or> (\<exists>fs. fr = CHR ''.'' # fs \<and> fs \<noteq> [] \<and> list_all digit fs)))"
proof
  assume n: "number_text a"
  obtain sign where sg: "a = sign @ skip_minus a" "sign = [] \<or> sign = ''-''"
    using skip_minus_decomp [of a] by auto
  let ?u = "skip_minus a"
  have "a = sign @ takeWhile digit ?u @ dropWhile digit ?u" using sg(1) by simp
  moreover have "dropWhile digit ?u = [] \<or> (\<exists>fs. dropWhile digit ?u = CHR ''.'' # fs \<and> fs \<noteq> [] \<and> list_all digit fs)"
    using n by (auto simp: number_text_def split: list.splits)
  ultimately show "\<exists>sign ds fr. a = sign @ ds @ fr \<and> (sign = [] \<or> sign = ''-'') \<and> list_all digit ds
        \<and> (fr = [] \<or> (\<exists>fs. fr = CHR ''.'' # fs \<and> fs \<noteq> [] \<and> list_all digit fs))"
    using sg(2) list_all_takeWhile by blast
next
  assume "\<exists>sign ds fr. a = sign @ ds @ fr \<and> (sign = [] \<or> sign = ''-'') \<and> list_all digit ds
        \<and> (fr = [] \<or> (\<exists>fs. fr = CHR ''.'' # fs \<and> fs \<noteq> [] \<and> list_all digit fs))"
  then show "number_text a" using number_text_intro by blast
qed

lemma MatchString_iff:
  "MatchString location \<longleftrightarrow> (\<exists>a b. location = a @ '','' @ b \<and> number_text a \<and> number_text b)"
proof
  assume m: "MatchString location"
  then obtain t where r: "match_number location = Some (CHR '','' # t)" "match_number t = Some []"
    by (auto simp: MatchString_def split: option.splits list.splits)
  from match_number_sound [OF r(1)] obtain a where a: "location = a @ CHR '','' # t" "number_text a" by auto
  from match_number_sound [OF r(2)] have "number_text t" by auto
  with a show "\<exists>a b. location = a @ '','' @ b \<and> number_text a \<and> number_text b" by auto
next
  assume "\<exists>a b. location = a @ '','' @ b \<and> number_text a \<and> number_text b"
  then obtain a b where ab: "location = a @ CHR '','' # b" "number_text a" "number_text b" by auto
  have "match_number (a @ CHR '','' # b) = Some (CHR '','' # b)"
    using ab(2) by (intro match_number_complete) auto
  moreover have "match_number (b @ []) = Some []"
    using ab(3) by (intro match_number_complete) auto
  ultimately show "MatchString location" using ab(1) by (simp add: MatchString_def)
qed

lemma Split_from_no_sep: "sep \<notin> set b \<Longrightarrow> Split_from sep cur b = [cur @ b]"
  by (induction b arbitrary: cur) auto

lemma Split_from_one_sep:
  "sep \<notin> set a \<Longrightarrow> sep \<notin> set b \<Longrightarrow> Split_from sep cur (a @ sep # b) = [cur @ a, b]"
  by (induction a arbitrary: cur) (auto simp: Split_from_no_sep)

lemma Split_two: "sep \<notin> set a \<Longrightarrow> sep \<notin> set b \<Longrightarrow> Split (a @ sep # b) sep = [a, b]"
  by (simp add: Split_def Split_from_one_sep)

lemma fetchLocation_matched:
  assumes "number_text a" "number_text b"
  shows "fetchLocation parseFloat (a @ '','' @ b) =
     (case parseFloat a of
        Inl err \<Rightarrow> Fail (LatitudeError err)
      | Inr lat \<Rightarrow>
          (case parseFloat b of
             Inl err \<Rightarrow> Fail (LongitudeError err)
           | Inr lon \<Rightarrow> Return (lat, lon)))"
proof -
  have "MatchString (a @ '','' @ b)" using assms MatchString_iff by blast
  moreover have "Split (a @ '','' @ b) (CHR '','') = [a, b]"
    using assms number_text_no_comma by (simp add: Split_two)
  ultimately show ?thesis by (simp add: fetchLocation_def index_def split: sum.splits)
qed

subsection \<open>The scan of the station list\<close>

declare scanStations.simps [simp del]

text \<open>
  Whatever the first \<^verbatim>\<open>Read\<close> delivers, the loop is left in its first iteration: an error
  other than \<^verbatim>\<open>io.EOF\<close>, and no error at all, take the \<^verbatim>\<open>break\<close>; \<^verbatim>\<open>io.EOF\<close> is not \<^verbatim>\<open>nil\<close> and
  takes the \<^verbatim>\<open>return\<close> of the second test.
\<close>

lemma scanStations_once:
  "scanStations P lat lon csv m c p w =
     (case csv_Read csv of
        ((record, err), csv') \<Rightarrow>
          if err = Some EOF then (Fail (CsvError stationListURI EOF), w)
          else (Return (c, p), w))"
  by (subst scanStations.simps) (auto split: prod.splits option.splits)

lemma csv_Read_Nil: "csv_Read [] = (([], Some EOF), [])"
  by (simp add: csv_Read_def)

lemma csv_Read_Cons: "csv_Read (x # xs) = (x, xs)"
  by (simp add: csv_Read_def)

lemma fetchNearestStation_Body:
  assumes "http_Get P stationListURI = Body body"
  shows "fetchNearestStation P lat lon w =
     (case ReadSlice body of
        (firstLine, Some err) \<Rightarrow>
          (Fail (HeaderError err), w\<lparr>requested := requested w @ [stationListURI]\<rparr>)
      | (firstLine, None) \<Rightarrow>
          (case csv_Read (csv_NewReader P (drop (length firstLine) body)) of
             ((record, err), csv') \<Rightarrow>
               if err = Some EOF then
                 (Fail (CsvError stationListURI EOF),
                  w\<lparr>requested := requested w @ [stationListURI]\<rparr>)
               else (Return ([], []), w\<lparr>requested := requested w @ [stationListURI]\<rparr>)))"
  using assms
  by (simp add: fetchNearestStation_def Get_def scanStations_once
      split: prod.splits option.splits)

lemma fetchNearestStation_requested:
  "requested (snd (fetchNearestStation P lat lon w)) = requested w @ [stationListURI]"
  by (simp add: fetchNearestStation_def Get_def scanStations_once
      split: prod.splits option.splits http_reply.splits)

lemma fetchNearestStation_Return:
  "fetchNearestStation P lat lon w = (Return (code, prov), w')
     \<Longrightarrow> code = [] \<and> prov = [] \<and> w' = w\<lparr>requested := requested w @ [stationListURI]\<rparr>"
  by (auto simp add: fetchNearestStation_def Get_def scanStations_once
      split: prod.splits option.splits http_reply.splits if_splits)

subsection \<open>Coordinate parsing\<close>

lemmas location_eval =
  fetchLocation_def MatchString_def match_number_def skip_minus_def digit_def Split_def
  index_def decimalFloat_def digits_value_def quoted_def

lemma fetchLocation_not_matched:
  "\<not> MatchString location \<Longrightarrow> fetchLocation parseFloat location = Fail LocationFormatError"
  by (simp add: fetchLocation_def)

text \<open>
  Claim C5, as the code has it. A location that is not two number texts joined by one
  comma, where a number text is an optional minus sign, zero or more digits and an
  optional point with at least one digit after it, fails with the format error
  \<^verbatim>\<open>expected location to be only latitude,longitude\<close>, whatever \<^verbatim>\<open>ParseFloat\<close> does.
\<close>

theorem fetchLocation_format_error:
  assumes "\<not> (\<exists>a b. location = a @ '','' @ b \<and> number_text a \<and> number_text b)"
  shows "fetchLocation parseFloat location = Fail LocationFormatError"
  using assms fetchLocation_not_matched MatchString_iff by blast

theorem fetchLocation_format_error_witness:
  "\<not> (\<exists>a b. ''45.4215,-75.6972,extra'' = a @ '','' @ b \<and> number_text a \<and> number_text b)
   \<and> fetchLocation decimalFloat ''45.4215,-75.6972,extra'' = Fail LocationFormatError"
proof -
  have "\<not> MatchString ''45.4215,-75.6972,extra''"
    by (simp add: location_eval)
  then have h:
    "\<not> (\<exists>a b. ''45.4215,-75.6972,extra'' = a @ '','' @ b \<and> number_text a \<and> number_text b)"
    using MatchString_iff by blast
  show ?thesis using h fetchLocation_format_error [OF h] by blast
qed

text \<open>
  Claim C5, as the specification words it, fails. The location that is a lone comma is
  not two signed decimal numbers, yet the pattern matches it (both digit runs empty, no
  fractional part), so the call reaches \<^verbatim>\<open>ParseFloat\<close> on the empty string and fails with
  the latitude error, not with the format error.
\<close>

theorem empty_numbers_counterexample:
  "\<not> spec_location '',''
   \<and> fetchLocation decimalFloat '','' =
       Fail (LatitudeError
         (''strconv.ParseFloat: parsing '' @ [CHR 0x22, CHR 0x22] @ '': invalid syntax''))"
  by (simp add: location_eval spec_location_def spec_signed_decimal_def)

text \<open>
  Claim C6. A location is accepted exactly when it is two number texts joined by a
  comma on both of which \<^verbatim>\<open>ParseFloat\<close> succeeds, and the pair returned is the pair of
  \<^verbatim>\<open>ParseFloat\<close>'s results on the two texts: nothing is clamped or normalised, a longitude
  of 400 is returned as it is. The location \<^verbatim>\<open>45.4215,-75.6972\<close> yields that pair of
  numbers, and with a third component added it fails.
\<close>

theorem fetchLocation_components:
  "(fetchLocation parseFloat location = Return (lat, lon) \<longleftrightarrow>
      (\<exists>a b. location = a @ '','' @ b \<and> number_text a \<and> number_text b
         \<and> parseFloat a = Inr lat \<and> parseFloat b = Inr lon))
   \<and> fetchLocation decimalFloat ''45.4215,-75.6972'' = Return (45.4215, - 75.6972)
   \<and> fetchLocation decimalFloat ''45.4215,400'' = Return (45.4215, 400)
   \<and> fetchLocation parseFloat ''45.4215,-75.6972,extra'' = Fail LocationFormatError"
proof (intro conjI)
  show "fetchLocation parseFloat location = Return (lat, lon) \<longleftrightarrow>
      (\<exists>a b. location = a @ '','' @ b \<and> number_text a \<and> number_text b
         \<and> parseFloat a = Inr lat \<and> parseFloat b = Inr lon)"
  proof
    assume r: "fetchLocation parseFloat location = Return (lat, lon)"
    then have "MatchString location"
      by (auto simp: fetchLocation_def split: if_splits)
    then obtain a b where ab: "location = a @ '','' @ b" "number_text a" "number_text b"
      using MatchString_iff by blast
    from r have "parseFloat a = Inr lat \<and> parseFloat b = Inr lon"
      unfolding ab(1) fetchLocation_matched [OF ab(2,3)]
      by (auto split: sum.splits)
    with ab show "\<exists>a b. location = a @ '','' @ b \<and> number_text a \<and> number_text b
         \<and> parseFloat a = Inr lat \<and> parseFloat b = Inr lon" by blast
  next
    assume "\<exists>a b. location = a @ '','' @ b \<and> number_text a \<and> number_text b
         \<and> parseFloat a = Inr lat \<and> parseFloat b = Inr lon"
    then obtain a b where ab: "location = a @ '','' @ b" "number_text a" "number_text b"
      "parseFloat a = Inr lat" "parseFloat b = Inr lon" by blast
    show "fetchLocation parseFloat location = Return (lat, lon)"
      unfolding ab(1) fetchLocation_matched [OF ab(2,3)] using ab(4,5) by simp
  qed
  show "fetchLocation decimalFloat ''45.4215,-75.6972'' = Return (45.4215, - 75.6972)"
    by (simp add: location_eval)
  show "fetchLocation decimalFloat ''45.4215,400'' = Return (45.4215, 400)"
    by (simp add: location_eval)
  show "fetchLocation parseFloat ''45.4215,-75.6972,extra'' = Fail LocationFormatError"
    by (simp add: location_eval)
qed

theorem fetchLocation_components_witness:
  "(\<exists>a b. ''0.5,-1'' = a @ '','' @ b \<and> number_text a \<and> number_text b
      \<and> decimalFloat a = Inr 0.5 \<and> decimalFloat b = Inr (- 1))
   \<and> fetchLocation decimalFloat ''0.5,-1'' = Return (0.5, - 1)"
proof -
  have "''0.5,-1'' = ''0.5'' @ '','' @ ''-1'' \<and> number_text ''0.5'' \<and> number_text ''-1''
      \<and> decimalFloat ''0.5'' = Inr 0.5 \<and> decimalFloat ''-1'' = Inr (- 1)"
    by (simp add: number_text_def location_eval)
  then have ex: "\<exists>a b. ''0.5,-1'' = a @ '','' @ b \<and> number_text a \<and> number_text b
      \<and> decimalFloat a = Inr 0.5 \<and> decimalFloat b = Inr (- 1)"
    by blast
  from iffD2 [OF conjunct1 [OF fetchLocation_components] ex] ex show ?thesis by blast
qed

subsection \<open>Nearest-station resolution\<close>

lemma ReadSlice_header: "ReadSlice (header @ rows) = (header, None)"
  by (simp add: ReadSlice_def header_def newline_def)

lemmas csv_eval = plainCsv_def Split_def newline_def

lemma fixture_simps:
  "ParseFloat (fixture directory bulletin decoded) = decimalFloat"
  "http_Get (fixture directory bulletin decoded) URI =
     (if URI = stationListURI then directory else bulletin)"
  "csv_NewReader (fixture directory bulletin decoded) = plainCsv"
  "xml_Unmarshal (fixture directory bulletin decoded) body = decoded"
  by (simp_all add: fixture_def)

lemma fixture_station_list:
  "fetchNearestStation (fixture (Body (header @ rows)) bulletin decoded) lat lon w =
     (case csv_Read (plainCsv rows) of
        ((record, err), csv') \<Rightarrow>
          if err = Some EOF then
            (Fail (CsvError stationListURI EOF), w\<lparr>requested := requested w @ [stationListURI]\<rparr>)
          else (Return ([], []), w\<lparr>requested := requested w @ [stationListURI]\<rparr>))"
  by (simp add: fetchNearestStation_Body [where body = "header @ rows"] fixture_simps ReadSlice_header)

lemma plainCsv_threeRows:
  "plainCsv threeRows
   = [([''A'', ''Alpha'', ''ON'', ''0N'', ''0W''], None),
      ([''B'', ''Beta'', ''QC'', ''1N'', ''1W''], None),
      ([''C'', ''Gamma'', ''BC'', ''-1N'', ''-1W''], None)]"
  by (simp add: threeRows_def csv_eval)

lemma plainCsv_badThenGood:
  "plainCsv badThenGood
   = [([''X'', ''Xi'', ''ON'', ''northN'', ''0W''], None),
      ([''B'', ''Beta'', ''QC'', ''1N'', ''1W''], None)]"
  by (simp add: badThenGood_def csv_eval)

lemma plainCsv_allBad:
  "plainCsv allBad
   = [([''X'', ''Xi'', ''ON'', ''northN'', ''0W''], None),
      ([''Y'', ''Upsilon'', ''QC'', ''1N'', ''westW''], None)]"
  by (simp add: allBad_def csv_eval)

lemmas malformed_eval =
  malformed_def index_def drop_last_def fixture_simps decimalFloat_def digit_def
  digits_value_def quoted_def

text \<open>
  Claim C1, evaluated on the specification's own example. The station list holds A at
  (0, 0), B at (1, 1) and C at (-1, -1) and the query is (0.4, 0.4). The call returns
  with a \<^verbatim>\<open>nil\<close> error and the empty station code and province, not A: the first \<^verbatim>\<open>Read\<close>
  delivers the row of A without error, which is an error different from \<^verbatim>\<open>io.EOF\<close>, and
  the loop is left before any distance is computed.
\<close>

theorem three_stations_example:
  "csv_NewReader (fixture (Body (header @ threeRows)) (Body []) (Inr ()))
       (drop (length (fst (ReadSlice (header @ threeRows)))) (header @ threeRows))
     = [([''A'', ''Alpha'', ''ON'', ''0N'', ''0W''], None),
        ([''B'', ''Beta'', ''QC'', ''1N'', ''1W''], None),
        ([''C'', ''Gamma'', ''BC'', ''-1N'', ''-1W''], None)]
   \<and> fetchNearestStation (fixture (Body (header @ threeRows)) (Body []) (Inr ())) 0.4 0.4 idle
     = (Return ([], []), \<lparr>requested = [stationListURI], logged = []\<rparr>)"
  by (simp add: fixture_station_list ReadSlice_header fixture_simps plainCsv_threeRows
      csv_Read_Cons idle_def)

text \<open>
  Claim C3, evaluated on a station list whose first row has a latitude that is no number
  and whose second row is well formed, with the query at the second station. The first
  row is one the loop body would pass over and the second is not, yet the result is the
  empty station code and province and nothing is logged: the body is never entered, so
  the row is neither logged nor followed by a look at the next one.
\<close>

theorem malformed_row_example:
  "csv_NewReader (fixture (Body (header @ badThenGood)) (Body []) (Inr ()))
       (drop (length (fst (ReadSlice (header @ badThenGood)))) (header @ badThenGood))
     = [([''X'', ''Xi'', ''ON'', ''northN'', ''0W''], None),
        ([''B'', ''Beta'', ''QC'', ''1N'', ''1W''], None)]
   \<and> malformed (fixture (Body (header @ badThenGood)) (Body []) (Inr ()))
        [''X'', ''Xi'', ''ON'', ''northN'', ''0W'']
   \<and> \<not> malformed (fixture (Body (header @ badThenGood)) (Body []) (Inr ()))
        [''B'', ''Beta'', ''QC'', ''1N'', ''1W'']
   \<and> fetchNearestStation (fixture (Body (header @ badThenGood)) (Body []) (Inr ())) 1 1 idle
     = (Return ([], []), \<lparr>requested = [stationListURI], logged = []\<rparr>)"
  by (simp add: fixture_station_list ReadSlice_header plainCsv_badThenGood
      csv_Read_Cons idle_def malformed_eval)

text \<open>
  Claim C2, as the specification words it, fails. On a station list whose rows all have
  a coordinate that is no number, the call succeeds with the empty station code and
  province; it does not fail.
\<close>

theorem all_malformed_counterexample:
  "csv_NewReader (fixture (Body (header @ allBad)) (Body []) (Inr ()))
       (drop (length (fst (ReadSlice (header @ allBad)))) (header @ allBad))
     = [([''X'', ''Xi'', ''ON'', ''northN'', ''0W''], None),
        ([''Y'', ''Upsilon'', ''QC'', ''1N'', ''westW''], None)]
   \<and> malformed (fixture (Body (header @ allBad)) (Body []) (Inr ()))
        [''X'', ''Xi'', ''ON'', ''northN'', ''0W'']
   \<and> malformed (fixture (Body (header @ allBad)) (Body []) (Inr ()))
        [''Y'', ''Upsilon'', ''QC'', ''1N'', ''westW'']
   \<and> fst (fetchNearestStation (fixture (Body (header @ allBad)) (Body []) (Inr ())) 1 1 idle)
     = Return ([], [])"
  by (simp add: fixture_station_list ReadSlice_header plainCsv_allBad
      csv_Read_Cons idle_def malformed_eval)

text \<open>
  Claim C9. When the station list is fetched, its header line is found and the first
  \<^verbatim>\<open>Read\<close> after it delivers a record without error, the call returns the empty station
  code, the empty province and no error, after the one request and with nothing logged,
  whatever the query coordinate, the record and the rest of the list are.
\<close>

theorem first_record_ends_scan:
  assumes "http_Get P stationListURI = Body body"
    and "ReadSlice body = (firstLine, None)"
    and "csv_Read (csv_NewReader P (drop (length firstLine) body)) = ((record, None), rest)"
  shows "fetchNearestStation P lat lon w
           = (Return ([], []), w\<lparr>requested := requested w @ [stationListURI]\<rparr>)"
  using assms(2,3) by (simp add: fetchNearestStation_Body [OF assms(1)])

theorem first_record_ends_scan_witness:
  "http_Get (fixture (Body (header @ threeRows)) (Body []) (Inr ())) stationListURI
     = Body (header @ threeRows)
   \<and> ReadSlice (header @ threeRows) = (header, None)
   \<and> csv_Read (csv_NewReader (fixture (Body (header @ threeRows)) (Body []) (Inr ()))
        (drop (length header) (header @ threeRows)))
     = (([''A'', ''Alpha'', ''ON'', ''0N'', ''0W''], None),
        [([''B'', ''Beta'', ''QC'', ''1N'', ''1W''], None),
         ([''C'', ''Gamma'', ''BC'', ''-1N'', ''-1W''], None)])
   \<and> fetchNearestStation (fixture (Body (header @ threeRows)) (Body []) (Inr ())) 45 (- 75)
        \<lparr>requested = [], logged = []\<rparr>
     = (Return ([], []), \<lparr>requested = [stationListURI], logged = []\<rparr>)"
proof -
  let ?P = "fixture (Body (header @ threeRows)) (Body []) (Inr ()) :: (real, unit) platform"
  have a: "http_Get ?P stationListURI = Body (header @ threeRows)"
    by (simp add: fixture_simps)
  have b: "ReadSlice (header @ threeRows) = (header, None)"
    by (rule ReadSlice_header)
  have c: "csv_Read (csv_NewReader ?P (drop (length header) (header @ threeRows)))
     = (([''A'', ''Alpha'', ''ON'', ''0N'', ''0W''], None),
        [([''B'', ''Beta'', ''QC'', ''1N'', ''1W''], None),
         ([''C'', ''Gamma'', ''BC'', ''-1N'', ''-1W''], None)])"
    by (simp add: fixture_simps plainCsv_threeRows csv_Read_Cons)
  have "fetchNearestStation ?P 45 (- 75) \<lparr>requested = [], logged = []\<rparr>
     = (Return ([], []), \<lparr>requested = [stationListURI], logged = []\<rparr>)"
    using first_record_ends_scan [OF a b c, of 45 "- 75" "\<lparr>requested = [], logged = []\<rparr>"]
    by simp
  with a b c show ?thesis by (intro conjI)
qed

text \<open>
  Claim C2, as the code has it. When the station list has at least one row and each row
  is read without error and has a latitude or longitude that is no number, the call
  succeeds with the empty station code and the empty province. The function builds no
  error for a lookup that finds no station.
\<close>

theorem all_malformed_empty_success:
  assumes "http_Get P stationListURI = Body body"
    and "ReadSlice body = (firstLine, None)"
    and "csv_NewReader P (drop (length firstLine) body) = records"
    and "records \<noteq> []"
    and "\<forall>(record, err) \<in> set records. err = None \<and> malformed P record"
  shows "fst (fetchNearestStation P lat lon w) = Return ([], [])"
proof -
  obtain row err rest where r: "records = (row, err) # rest"
    using assms(4) by (cases records) auto
  then have "err = None" using assms(5) by auto
  then show ?thesis
    using assms(2,3) r by (simp add: fetchNearestStation_Body [OF assms(1)] csv_Read_Cons)
qed

theorem all_malformed_empty_success_witness:
  "http_Get (fixture (Body (header @ allBad)) (Body []) (Inr ())) stationListURI
     = Body (header @ allBad)
   \<and> ReadSlice (header @ allBad) = (header, None)
   \<and> csv_NewReader (fixture (Body (header @ allBad)) (Body []) (Inr ()))
        (drop (length header) (header @ allBad))
     = [([''X'', ''Xi'', ''ON'', ''northN'', ''0W''], None),
        ([''Y'', ''Upsilon'', ''QC'', ''1N'', ''westW''], None)]
   \<and> malformed (fixture (Body (header @ allBad)) (Body []) (Inr ()))
        [''X'', ''Xi'', ''ON'', ''northN'', ''0W'']
   \<and> malformed (fixture (Body (header @ allBad)) (Body []) (Inr ()))
        [''Y'', ''Upsilon'', ''QC'', ''1N'', ''westW'']
   \<and> fst (fetchNearestStation (fixture (Body (header @ allBad)) (Body []) (Inr ())) 45 (- 75)
        \<lparr>requested = [], logged = []\<rparr>)
     = Return ([], [])"
proof -
  let ?P = "fixture (Body (header @ allBad)) (Body []) (Inr ()) :: (real, unit) platform"
  let ?rows = "[([''X'', ''Xi'', ''ON'', ''northN'', ''0W''], None),
                ([''Y'', ''Upsilon'', ''QC'', ''1N'', ''westW''], None)]
               :: csv_Reader"
  have a: "http_Get ?P stationListURI = Body (header @ allBad)"
    by (simp add: fixture_simps)
  have b: "ReadSlice (header @ allBad) = (header, None)"
    by (rule ReadSlice_header)
  have c: "csv_NewReader ?P (drop (length header) (header @ allBad)) = ?rows"
    by (simp add: fixture_simps plainCsv_allBad)
  have d: "?rows \<noteq> []"
    by simp
  have m1: "malformed ?P [''X'', ''Xi'', ''ON'', ''northN'', ''0W'']"
    by (simp add: malformed_eval)
  have m2: "malformed ?P [''Y'', ''Upsilon'', ''QC'', ''1N'', ''westW'']"
    by (simp add: malformed_eval)
  have e: "\<forall>(record, err) \<in> set ?rows. err = None \<and> malformed ?P record"
    using m1 m2 by simp
  have "fst (fetchNearestStation ?P 45 (- 75) \<lparr>requested = [], logged = []\<rparr>)
     = Return ([], [])"
    by (rule all_malformed_empty_success [OF a b c d e])
  with a b c m1 m2 show ?thesis by (intro conjI)
qed

subsection \<open>The bulletin request and the pipeline\<close>

lemma fetchLocation_no_panic: "fetchLocation parseFloat location \<noteq> Panic p"
proof (cases "MatchString location")
  case True
  then obtain a b where ab: "location = a @ '','' @ b" "number_text a" "number_text b"
    using MatchString_iff by blast
  show ?thesis unfolding ab(1) fetchLocation_matched [OF ab(2,3)]
    by (simp split: sum.splits)
next
  case False
  then show ?thesis by (simp add: fetchLocation_not_matched)
qed

lemma fetchNearestStation_no_panic: "fst (fetchNearestStation P lat lon w) \<noteq> Panic p"
  by (simp add: fetchNearestStation_def Get_def scanStations_once
      split: prod.splits option.splits http_reply.splits)

lemma fetchSiteData_requested:
  "requested (snd (fetchSiteData P stationCode province l w))
     = requested w @ [siteDataURI stationCode province l]"
  by (simp add: fetchSiteData_def Get_def Let_def split: http_reply.splits sum.splits)

lemma fetchSiteData_no_panic: "fst (fetchSiteData P stationCode province l w) \<noteq> Panic p"
  by (simp add: fetchSiteData_def Get_def Let_def split: http_reply.splits sum.splits)

lemma fetchNearestStation_not_Panic: "fetchNearestStation P lat lon w \<noteq> (Panic p, w')"
  using fetchNearestStation_no_panic [of P lat lon w p] by auto

lemma fetchSiteData_not_Panic: "fetchSiteData P stationCode province l w \<noteq> (Panic p, w')"
  using fetchSiteData_no_panic [of P stationCode province l w p] by auto

lemma utf8_encode_ascii:
  assumes "(of_char b :: nat) < 128"
  shows "utf8_encode (of_char b) = [b]"
proof -
  have "(of_char b :: int) = int (of_char b)" by (simp add: of_char_def)
  then have "(of_char b :: int) < 128" "(0::int) \<le> of_char b" using assms by simp_all
  then show ?thesis by (simp add: utf8_encode_def)
qed

lemma first_character_ascii:
  "(of_char b :: nat) < 128 \<Longrightarrow> first_character (b # rest) = [b]"
  by (simp add: first_character_def)

lemma index_0: "index xs 0 = (case xs of [] \<Rightarrow> None | x # _ \<Rightarrow> Some x)"
  by (cases xs) (simp_all add: index_def)

lemma requested_log_Print [simp]: "requested (log_Print l w) = requested w"
  by (simp add: log_Print_def)

lemma log_Fatal_simps [simp]:
  "fst (log_Fatal err w) = Exits err" "requested (snd (log_Fatal err w)) = requested w"
  by (simp_all add: log_Fatal_def)

text \<open>
  Claim C8. When the bulletin request is answered and \<^verbatim>\<open>xml.Unmarshal\<close> fails on the body,
  \<^verbatim>\<open>fetchSiteData\<close> fails with the error \<^verbatim>\<open>unable to unmarshal response\<close>, which carries the
  address, the decoder's error and the body as it was received; the message of the
  error ends with that body.
\<close>

theorem undecodable_bulletin:
  assumes "http_Get P (siteDataURI stationCode province l) = Body body"
    and "xml_Unmarshal P body = Inl err"
  shows "fst (fetchSiteData P stationCode province l w)
           = Fail (UnmarshalError (siteDataURI stationCode province l) err body)
         \<and> suffix body (Error (UnmarshalError (siteDataURI stationCode province l) err body))"
  using assms by (simp add: fetchSiteData_def Get_def Let_def suffix_def)

lemma bulletin_e:
  "siteDataURI ''s0000430'' ''ON'' (of_char (CHR ''e''))
     = ''https://dd.weather.gc.ca/citypage_weather/xml/s0000430/ON_e.xml''"
  by (simp add: siteDataURI_def utf8_encode_def char_of_def)

theorem undecodable_bulletin_witness:
  "http_Get truncated (siteDataURI ''s0000430'' ''ON'' (of_char (CHR ''e'')))
     = Body ''<siteData><lic''
   \<and> xml_Unmarshal truncated ''<siteData><lic''
       = Inl ''XML syntax error on line 1: unexpected EOF''
   \<and> fst (fetchSiteData truncated ''s0000430'' ''ON'' (of_char (CHR ''e''))
          \<lparr>requested = [], logged = []\<rparr>)
       = Fail (UnmarshalError ''https://dd.weather.gc.ca/citypage_weather/xml/s0000430/ON_e.xml''
           ''XML syntax error on line 1: unexpected EOF'' ''<siteData><lic'')
   \<and> suffix ''<siteData><lic''
        (Error (UnmarshalError ''https://dd.weather.gc.ca/citypage_weather/xml/s0000430/ON_e.xml''
           ''XML syntax error on line 1: unexpected EOF'' ''<siteData><lic''))"
proof -
  have a: "http_Get truncated (siteDataURI ''s0000430'' ''ON'' (of_char (CHR ''e'')))
             = Body ''<siteData><lic''"
    unfolding bulletin_e by (simp add: truncated_def fixture_simps stationListURI_def)
  have b: "xml_Unmarshal truncated ''<siteData><lic''
             = Inl ''XML syntax error on line 1: unexpected EOF''"
    by (simp add: truncated_def fixture_simps)
  note r = undecodable_bulletin [OF a b, of "\<lparr>requested = [], logged = []\<rparr>",
      unfolded bulletin_e]
  from a b conjunct1 [OF r] conjunct2 [OF r] show ?thesis by (intro conjI)
qed

text \<open>
  Claim C7, as the code has it. For a configured language string that is not empty, with
  first byte \<open>b\<close>, the bulletin request goes to the address made of the station code, a
  slash, the region, an underscore, the UTF-8 encoding of the code point whose number is
  \<open>b\<close>, and \<^verbatim>\<open>.xml\<close>; nothing checks the language against \<^verbatim>\<open>e\<close> and \<^verbatim>\<open>f\<close>. When \<open>b\<close> is an
  ASCII byte that encoding is \<open>b\<close> itself, the first character of the string. A run of
  \<^verbatim>\<open>Fetch\<close> that returns has sent the station list request and then that bulletin request.
\<close>

theorem bulletin_URI_language:
  assumes "index (lang c) 0 = Some b"
  shows "requested (snd (fetchSiteData P stationCode province (of_char b) w))
           = requested w @
             [''https://dd.weather.gc.ca/citypage_weather/xml/'' @ stationCode @ ''/'' @ province
                @ ''_'' @ utf8_encode (of_char b) @ ''.xml'']
         \<and> ((of_char b :: nat) < 128 \<longrightarrow>
              utf8_encode (of_char b) = [b]
              \<and> siteDataURI stationCode province (of_char b)
                  = spec_siteDataURI stationCode province (lang c))
         \<and> (\<forall>r w'. Fetch P zero c location numdays w = (Returns r, w') \<longrightarrow>
              (\<exists>code prov. requested w'
                 = requested w @ [stationListURI, siteDataURI code prov (of_char b)]))"
proof (intro conjI impI allI)
  show "requested (snd (fetchSiteData P stationCode province (of_char b) w))
           = requested w @
             [''https://dd.weather.gc.ca/citypage_weather/xml/'' @ stationCode @ ''/'' @ province
                @ ''_'' @ utf8_encode (of_char b) @ ''.xml'']"
    by (simp add: fetchSiteData_requested siteDataURI_def)
next
  assume "(of_char b :: nat) < 128"
  then show "utf8_encode (of_char b) = [b]" by (rule utf8_encode_ascii)
next
  assume a: "(of_char b :: nat) < 128"
  obtain rest where l: "lang c = b # rest"
    using assms by (cases "lang c") (simp_all add: index_def)
  show "siteDataURI stationCode province (of_char b)
          = spec_siteDataURI stationCode province (lang c)"
    using a by (simp add: siteDataURI_def spec_siteDataURI_def l utf8_encode_ascii
        first_character_ascii)
next
  fix r w'
  assume f: "Fetch P zero c location numdays w = (Returns r, w')"
  then obtain lat lon code prov w1 data w2 where
    s: "fetchNearestStation P lat lon w = (Return (code, prov), w1)"
       "fetchSiteData P code prov (of_char b) w1 = (Return data, w2)"
       "w' = log_Print (LogData data) w2"
    using assms
    by (auto simp: Fetch_def log_Fatal_def split: result.splits prod.splits option.splits)
  have "requested w1 = requested w @ [stationListURI]"
    using fetchNearestStation_requested [of P lat lon w] s(1) by simp
  moreover have "requested w2 = requested w1 @ [siteDataURI code prov (of_char b)]"
    using fetchSiteData_requested [of P code prov "of_char b" w1] s(2) by simp
  ultimately have "requested w' = requested w @ [stationListURI, siteDataURI code prov (of_char b)]"
    using s(3) by simp
  then show "\<exists>code prov. requested w'
                 = requested w @ [stationListURI, siteDataURI code prov (of_char b)]"
    by blast
qed


lemma served_station_list:
  "fetchNearestStation served lat lon w
     = (Return ([], []), w\<lparr>requested := requested w @ [stationListURI]\<rparr>)"
  by (simp add: served_def fixture_station_list plainCsv_threeRows csv_Read_Cons)

lemma served_simps:
  "ParseFloat served = decimalFloat"
  "http_Get served URI =
     (if URI = stationListURI then Body (header @ threeRows) else Body ''<siteData></siteData>'')"
  "xml_Unmarshal served body = Inr ()"
  by (simp_all add: served_def fixture_simps)

lemma location_examples:
  "fetchLocation decimalFloat ''45.4215,-75.6972'' = Return (45.4215, - 75.6972)"
  "fetchLocation decimalFloat ''north'' = Fail LocationFormatError"
  by (simp_all add: location_eval)

lemma bulletin_empty_station:
  "siteDataURI [] [] (of_char (CHR ''e''))
     = ''https://dd.weather.gc.ca/citypage_weather/xml//_e.xml''"
  by (simp add: siteDataURI_def utf8_encode_def char_of_def)

lemma bulletin_C3:
  "siteDataURI ''s0000430'' ''ON'' (of_char (CHR 0xC3))
     = ''https://dd.weather.gc.ca/citypage_weather/xml/s0000430/ON_''
         @ [CHR 0xC3, CHR 0x83] @ ''.xml''"
  by (simp add: siteDataURI_def utf8_encode_def char_of_def)

lemma siteDataURI_not_stationListURI: "siteDataURI code prov l \<noteq> stationListURI"
  by (simp add: siteDataURI_def stationListURI_def)

lemma served_fetchSiteData:
  "fetchSiteData served code prov l w
     = (Return (), w\<lparr>requested := requested w @ [siteDataURI code prov l]\<rparr>)"
  by (simp add: fetchSiteData_def Get_def Let_def served_simps siteDataURI_not_stationListURI)

lemma served_Fetch_e:
  "Fetch served (0::nat) \<lparr>lang = ''e''\<rparr> ''45.4215,-75.6972'' 3 \<lparr>requested = [], logged = []\<rparr>
     = (Returns 0,
        \<lparr>requested = [stationListURI, ''https://dd.weather.gc.ca/citypage_weather/xml//_e.xml''],
         logged = [LogData ()]\<rparr>)"
  unfolding Fetch_def served_simps(1) location_examples(1)
  by (simp add: served_station_list index_def served_fetchSiteData siteDataURI_def
      utf8_encode_def char_of_def log_Print_def)

theorem bulletin_URI_language_witness:
  "index (lang \<lparr>lang = ''e''\<rparr>) 0 = Some (CHR ''e'')
   \<and> requested (snd (fetchSiteData served ''s0000430'' ''ON'' (of_char (CHR ''e''))
        \<lparr>requested = [], logged = []\<rparr>))
       = [''https://dd.weather.gc.ca/citypage_weather/xml/s0000430/ON_e.xml'']
   \<and> siteDataURI ''s0000430'' ''ON'' (of_char (CHR ''e''))
       = spec_siteDataURI ''s0000430'' ''ON'' (lang \<lparr>lang = ''e''\<rparr>)"
proof -
  have h: "index (lang \<lparr>lang = ''e''\<rparr>) 0 = Some (CHR ''e'')"
    by (simp add: index_def)
  have a: "(of_char (CHR ''e'') :: nat) < 128"
    by simp
  note r = bulletin_URI_language [OF h, of served "''s0000430''" "''ON''"
      "\<lparr>requested = [], logged = []\<rparr>" "0::nat" "[]" 0]
  have e: "utf8_encode (of_char (CHR ''e'')) = ''e''"
    using conjunct1 [OF conjunct2 [OF r]] a by blast
  have "requested (snd (fetchSiteData served ''s0000430'' ''ON'' (of_char (CHR ''e''))
        \<lparr>requested = [], logged = []\<rparr>))
       = [''https://dd.weather.gc.ca/citypage_weather/xml/s0000430/ON_e.xml'']"
    using conjunct1 [OF r] unfolding e by simp
  moreover have "siteDataURI ''s0000430'' ''ON'' (of_char (CHR ''e''))
       = spec_siteDataURI ''s0000430'' ''ON'' (lang \<lparr>lang = ''e''\<rparr>)"
    using conjunct1 [OF conjunct2 [OF r]] a by blast
  ultimately show ?thesis using h by (intro conjI)
qed

text \<open>
  Claim C7, as the specification words it, fails. A configured string that begins with
  \<^verbatim>\<open>U+00E9\<close> is the bytes \<^verbatim>\<open>C3 A9\<close> in Go. \<^verbatim>\<open>c.lang[0]\<close> is the byte \<^verbatim>\<open>C3\<close>, its rune is \<^verbatim>\<open>U+00C3\<close>, and
  \<^verbatim>\<open>%c\<close> writes that as \<^verbatim>\<open>C3 83\<close>: the language part of the address is not the first character
  of the configured string.
\<close>

theorem non_ascii_language_counterexample:
  "index (lang \<lparr>lang = [CHR 0xC3, CHR 0xA9]\<rparr>) 0 = Some (CHR 0xC3)
   \<and> requested (snd (fetchSiteData served ''s0000430'' ''ON'' (of_char (CHR 0xC3))
        \<lparr>requested = [], logged = []\<rparr>))
       = [''https://dd.weather.gc.ca/citypage_weather/xml/s0000430/ON_''
            @ [CHR 0xC3, CHR 0x83] @ ''.xml'']
   \<and> spec_siteDataURI ''s0000430'' ''ON'' (lang \<lparr>lang = [CHR 0xC3, CHR 0xA9]\<rparr>)
       = ''https://dd.weather.gc.ca/citypage_weather/xml/s0000430/ON_''
            @ [CHR 0xC3, CHR 0xA9] @ ''.xml''
   \<and> requested (snd (fetchSiteData served ''s0000430'' ''ON'' (of_char (CHR 0xC3))
        \<lparr>requested = [], logged = []\<rparr>))
       \<noteq> [spec_siteDataURI ''s0000430'' ''ON'' (lang \<lparr>lang = [CHR 0xC3, CHR 0xA9]\<rparr>)]"
  unfolding fetchSiteData_requested bulletin_C3
  by (simp add: index_def spec_siteDataURI_def first_character_def)


lemma Fetch_stages:
  "Fetch P zero c location numdays w =
     (case fetchLocation (ParseFloat P) location of
        Panic p \<Rightarrow> (Panics p, w)
      | Fail err \<Rightarrow> log_Fatal err w
      | Return (lat, lon) \<Rightarrow>
          (case fetchNearestStation P lat lon w of
             (Panic p, w1) \<Rightarrow> (Panics p, w1)
           | (Fail err, w1) \<Rightarrow> log_Fatal err w1
           | (Return (nearestStationCode, province), w1) \<Rightarrow>
               (case lang c of
                  [] \<Rightarrow> (Panics (IndexOutOfRange 0 0), w1)
                | b # rest \<Rightarrow>
                    (case fetchSiteData P nearestStationCode province (of_char b) w1 of
                       (Panic p, w2) \<Rightarrow> (Panics p, w2)
                     | (Fail err, w2) \<Rightarrow> log_Fatal err w2
                     | (Return data, w2) \<Rightarrow> (Returns zero, log_Print (LogData data) w2)))))"
  by (simp add: Fetch_def index_0 split: result.splits prod.splits list.splits)

text \<open>
  Claim C4. A call of \<^verbatim>\<open>Fetch\<close> that returns hands back the zero value of \<^verbatim>\<open>iface.Data\<close>,
  whatever the location, the number of days and the fetched document are. A failure of
  any of the three stages does not come back as a value: the run ends in \<^verbatim>\<open>log.Fatal\<close> with
  that stage's error.
\<close>

theorem Fetch_returns_zero:
  "(Fetch P zero c location numdays w = (Returns r, w') \<longrightarrow> r = zero)
   \<and> (fetchLocation (ParseFloat P) location = Fail err \<longrightarrow>
        fst (Fetch P zero c location numdays w) = Exits err)
   \<and> (fetchLocation (ParseFloat P) location = Return (lat, lon)
        \<and> fetchNearestStation P lat lon w = (Fail err, w1) \<longrightarrow>
        fst (Fetch P zero c location numdays w) = Exits err)
   \<and> (fetchLocation (ParseFloat P) location = Return (lat, lon)
        \<and> fetchNearestStation P lat lon w = (Return (code, prov), w1)
        \<and> index (lang c) 0 = Some b
        \<and> fetchSiteData P code prov (of_char b) w1 = (Fail err, w2) \<longrightarrow>
        fst (Fetch P zero c location numdays w) = Exits err)"
proof (intro conjI impI)
  assume "Fetch P zero c location numdays w = (Returns r, w')"
  then show "r = zero"
    by (auto simp: Fetch_stages log_Fatal_def
        split: result.splits prod.splits list.splits)
next
  assume "fetchLocation (ParseFloat P) location = Fail err"
  then show "fst (Fetch P zero c location numdays w) = Exits err"
    by (simp add: Fetch_stages)
next
  assume "fetchLocation (ParseFloat P) location = Return (lat, lon)
        \<and> fetchNearestStation P lat lon w = (Fail err, w1)"
  then show "fst (Fetch P zero c location numdays w) = Exits err"
    by (simp add: Fetch_stages)
next
  assume "fetchLocation (ParseFloat P) location = Return (lat, lon)
        \<and> fetchNearestStation P lat lon w = (Return (code, prov), w1)
        \<and> index (lang c) 0 = Some b
        \<and> fetchSiteData P code prov (of_char b) w1 = (Fail err, w2)"
  then show "fst (Fetch P zero c location numdays w) = Exits err"
    by (auto simp: Fetch_stages index_0 split: list.splits)
qed

lemma truncated_simps:
  "ParseFloat truncated = decimalFloat"
  "http_Get truncated URI =
     (if URI = stationListURI then Body (header @ threeRows) else Body ''<siteData><lic'')"
  "xml_Unmarshal truncated body = Inl ''XML syntax error on line 1: unexpected EOF''"
  by (simp_all add: truncated_def fixture_simps)

lemma truncated_station_list:
  "fetchNearestStation truncated lat lon w
     = (Return ([], []), w\<lparr>requested := requested w @ [stationListURI]\<rparr>)"
  by (simp add: truncated_def fixture_station_list plainCsv_threeRows csv_Read_Cons)

lemma truncated_fetchSiteData:
  "fetchSiteData truncated code prov l w
     = (Fail (UnmarshalError (siteDataURI code prov l)
          ''XML syntax error on line 1: unexpected EOF'' ''<siteData><lic''),
        w\<lparr>requested := requested w @ [siteDataURI code prov l]\<rparr>)"
  by (simp add: fetchSiteData_def Get_def Let_def truncated_simps siteDataURI_not_stationListURI)

theorem Fetch_returns_zero_witness:
  "Fetch served (0::nat) \<lparr>lang = ''e''\<rparr> ''45.4215,-75.6972'' 3 \<lparr>requested = [], logged = []\<rparr>
     = (Returns 0,
        \<lparr>requested = [stationListURI, ''https://dd.weather.gc.ca/citypage_weather/xml//_e.xml''],
         logged = [LogData ()]\<rparr>)
   \<and> fetchLocation (ParseFloat served) ''north'' = Fail LocationFormatError
   \<and> fst (Fetch served (0::nat) \<lparr>lang = ''e''\<rparr> ''north'' 3 \<lparr>requested = [], logged = []\<rparr>)
       = Exits LocationFormatError
   \<and> fetchLocation (ParseFloat truncated) ''45.4215,-75.6972'' = Return (45.4215, - 75.6972)
   \<and> fetchNearestStation truncated 45.4215 (- 75.6972) \<lparr>requested = [], logged = []\<rparr>
       = (Return ([], []), \<lparr>requested = [stationListURI], logged = []\<rparr>)
   \<and> index (lang \<lparr>lang = ''e''\<rparr>) 0 = Some (CHR ''e'')
   \<and> fetchSiteData truncated [] [] (of_char (CHR ''e''))
         \<lparr>requested = [stationListURI], logged = []\<rparr>
       = (Fail (UnmarshalError ''https://dd.weather.gc.ca/citypage_weather/xml//_e.xml''
            ''XML syntax error on line 1: unexpected EOF'' ''<siteData><lic''),
          \<lparr>requested = [stationListURI, ''https://dd.weather.gc.ca/citypage_weather/xml//_e.xml''],
           logged = []\<rparr>)
   \<and> fst (Fetch truncated (0::nat) \<lparr>lang = ''e''\<rparr> ''45.4215,-75.6972'' 3
          \<lparr>requested = [], logged = []\<rparr>)
       = Exits (UnmarshalError ''https://dd.weather.gc.ca/citypage_weather/xml//_e.xml''
            ''XML syntax error on line 1: unexpected EOF'' ''<siteData><lic'')"
proof -
  let ?w = "\<lparr>requested = [], logged = []\<rparr> :: unit world"
  let ?c = "\<lparr>lang = ''e''\<rparr>"
  have a: "fetchLocation (ParseFloat served) ''north'' = Fail LocationFormatError"
    by (simp add: served_simps location_examples)
  have b: "fst (Fetch served (0::nat) ?c ''north'' 3 ?w) = Exits LocationFormatError"
    using conjunct1 [OF conjunct2 [OF Fetch_returns_zero
          [of served "0::nat" ?c "''north''" 3 ?w _ _ LocationFormatError]]] a
    by blast
  have l: "fetchLocation (ParseFloat truncated) ''45.4215,-75.6972'' = Return (45.4215, - 75.6972)"
    by (simp add: truncated_simps location_examples)
  have n: "fetchNearestStation truncated 45.4215 (- 75.6972) ?w
       = (Return ([], []), \<lparr>requested = [stationListURI], logged = []\<rparr>)"
    by (simp add: truncated_station_list)
  have i: "index (lang ?c) 0 = Some (CHR ''e'')"
    by (simp add: index_def)
  have s: "fetchSiteData truncated [] [] (of_char (CHR ''e''))
         \<lparr>requested = [stationListURI], logged = []\<rparr>
       = (Fail (UnmarshalError ''https://dd.weather.gc.ca/citypage_weather/xml//_e.xml''
            ''XML syntax error on line 1: unexpected EOF'' ''<siteData><lic''),
          \<lparr>requested = [stationListURI, ''https://dd.weather.gc.ca/citypage_weather/xml//_e.xml''],
           logged = []\<rparr>)"
    unfolding truncated_fetchSiteData bulletin_empty_station by simp
  have f: "fst (Fetch truncated (0::nat) ?c ''45.4215,-75.6972'' 3 ?w)
       = Exits (UnmarshalError ''https://dd.weather.gc.ca/citypage_weather/xml//_e.xml''
            ''XML syntax error on line 1: unexpected EOF'' ''<siteData><lic'')"
    using conjunct2 [OF conjunct2 [OF conjunct2 [OF Fetch_returns_zero
          [of truncated "0::nat" ?c "''45.4215,-75.6972''" 3 ?w]]]] l n i s
    by blast
  from served_Fetch_e a b l n i s f show ?thesis by (intro conjI)
qed

text \<open>
  Claim C10, as the code has it. \<^verbatim>\<open>Fetch\<close> panics exactly when the configured language
  string is empty and both the coordinate parsing and the station lookup have succeeded;
  the panic is the index error of \<^verbatim>\<open>c.lang[0]\<close>, and when it happens the station list
  request is the only request sent, so the bulletin request has not been made. With an
  empty language string \<^verbatim>\<open>Fetch\<close> never returns to its caller.
\<close>

theorem Fetch_panics_on_empty_language:
  "(fst (Fetch P zero c location numdays w) = Panics p \<longleftrightarrow>
      p = IndexOutOfRange 0 0 \<and> lang c = []
      \<and> (\<exists>lat lon code prov w1.
            fetchLocation (ParseFloat P) location = Return (lat, lon)
            \<and> fetchNearestStation P lat lon w = (Return (code, prov), w1)))
   \<and> (fst (Fetch P zero c location numdays w) = Panics p \<longrightarrow>
        requested (snd (Fetch P zero c location numdays w)) = requested w @ [stationListURI])
   \<and> (lang c = [] \<longrightarrow> (\<forall>r. fst (Fetch P zero c location numdays w) \<noteq> Returns r))"
proof (intro conjI impI allI)
  show "fst (Fetch P zero c location numdays w) = Panics p \<longleftrightarrow>
      p = IndexOutOfRange 0 0 \<and> lang c = []
      \<and> (\<exists>lat lon code prov w1.
            fetchLocation (ParseFloat P) location = Return (lat, lon)
            \<and> fetchNearestStation P lat lon w = (Return (code, prov), w1))"
    by (auto simp: Fetch_stages fetchLocation_no_panic fetchNearestStation_not_Panic
        fetchSiteData_not_Panic log_Fatal_def
        split: result.splits prod.splits list.splits)
next
  assume "fst (Fetch P zero c location numdays w) = Panics p"
  then show "requested (snd (Fetch P zero c location numdays w)) = requested w @ [stationListURI]"
    by (auto simp: Fetch_stages fetchLocation_no_panic fetchNearestStation_not_Panic
        fetchSiteData_not_Panic log_Fatal_def
        split: result.splits prod.splits list.splits dest: fetchNearestStation_Return)
next
  fix r
  assume "lang c = []"
  then show "fst (Fetch P zero c location numdays w) \<noteq> Returns r"
    by (auto simp: Fetch_stages log_Fatal_def split: result.splits prod.splits)
qed


theorem Fetch_panics_on_empty_language_witness:
  "lang \<lparr>lang = []\<rparr> = []
   \<and> fetchLocation (ParseFloat served) ''45.4215,-75.6972'' = Return (45.4215, - 75.6972)
   \<and> fetchNearestStation served 45.4215 (- 75.6972) \<lparr>requested = [], logged = []\<rparr>
       = (Return ([], []), \<lparr>requested = [stationListURI], logged = []\<rparr>)
   \<and> fst (Fetch served (0::nat) \<lparr>lang = []\<rparr> ''45.4215,-75.6972'' 3
          \<lparr>requested = [], logged = []\<rparr>)
       = Panics (IndexOutOfRange 0 0)
   \<and> requested (snd (Fetch served (0::nat) \<lparr>lang = []\<rparr> ''45.4215,-75.6972'' 3
          \<lparr>requested = [], logged = []\<rparr>))
       = [stationListURI]"
proof -
  let ?w = "\<lparr>requested = [], logged = []\<rparr> :: unit world"
  let ?c = "\<lparr>lang = []\<rparr>"
  note t = Fetch_panics_on_empty_language
    [of served "0::nat" ?c "''45.4215,-75.6972''" 3 ?w "IndexOutOfRange 0 0"]
  have e: "lang ?c = []"
    by simp
  have l: "fetchLocation (ParseFloat served) ''45.4215,-75.6972'' = Return (45.4215, - 75.6972)"
    by (simp add: served_simps location_examples)
  have n: "fetchNearestStation served 45.4215 (- 75.6972) ?w
       = (Return ([], []), \<lparr>requested = [stationListURI], logged = []\<rparr>)"
    by (simp add: served_station_list)
  have p: "fst (Fetch served (0::nat) ?c ''45.4215,-75.6972'' 3 ?w) = Panics (IndexOutOfRange 0 0)"
    using iffD2 [OF conjunct1 [OF t]] e l n by blast
  have r: "requested (snd (Fetch served (0::nat) ?c ''45.4215,-75.6972'' 3 ?w)) = [stationListURI]"
    using conjunct1 [OF conjunct2 [OF t]] p by simp
  from e l n p r show ?thesis by (intro conjI)
qed

text \<open>
  Claim C10, as the specification words it, fails. With an empty language string and a
  location that is no coordinate pair, \<^verbatim>\<open>Fetch\<close> does not panic: the first stage fails and
  the run ends in \<^verbatim>\<open>log.Fatal\<close> before \<^verbatim>\<open>c.lang[0]\<close> is evaluated.
\<close>

theorem empty_language_bad_location_counterexample:
  "lang \<lparr>lang = []\<rparr> = []
   \<and> Fetch served (0::nat) \<lparr>lang = []\<rparr> ''north'' 3 \<lparr>requested = [], logged = []\<rparr>
       = (Exits LocationFormatError,
          \<lparr>requested = [],
           logged = [LogText ''expected location to be only latitude,longitude'']\<rparr>)"
  by (simp add: Fetch_stages served_simps location_examples log_Fatal_def log_Print_def)

end
